theory Spec2Isabelle
  imports Complex_Main
begin

section \<open>The Mocktioneer bidder adapter\<close>

text \<open>
  A shallow embedding of \<^verbatim>\<open>src/openrtb_ext/imp_mocktioneer.go\<close>: the extension
  contract \<^verbatim>\<open>ExtMocktioneer\<close> and the adapter functions \<^verbatim>\<open>getHeaders\<close>,
  \<^verbatim>\<open>MakeRequests\<close>, \<^verbatim>\<open>parseImpExt\<close>, \<^verbatim>\<open>MakeBids\<close> and \<^verbatim>\<open>mediaTypeForImp\<close>.

  Go returns a value together with an error; a call that returns \<^verbatim>\<open>(v, nil)\<close> is
  \<open>Inr v\<close> and one that returns \<^verbatim>\<open>(_, err)\<close> is \<open>Inl err\<close>. The two adapter entry
  points return a slice (or pointer) together with an error slice, and are modelled
  by pairs, \<^verbatim>\<open>nil\<close> being \<open>[]\<close> or \<open>None\<close>. \<^verbatim>\<open>MakeRequests\<close> writes to the request
  it is given, so its model also returns the request as it is left.
\<close>

subsection \<open>Data\<close>

text \<open>
  A \<^verbatim>\<open>float64\<close>. The adapter only compares it with zero and hands it to the encoder,
  so the finite values are rationals (both zeros are \<open>Finite 0\<close>) and the three
  special values are kept apart, since the encoder refuses them.
\<close>

datatype float64 = Finite rat | PosInf | NegInf | NaN

text \<open>Go's \<^verbatim>\<open>x != 0\<close> on a float64: true for NaN and for the infinities.\<close>

fun nonzero :: "float64 \<Rightarrow> bool" where
  "nonzero (Finite q) = (q \<noteq> 0)"
| "nonzero PosInf = True"
| "nonzero NegInf = True"
| "nonzero NaN = True"

fun isFinite :: "float64 \<Rightarrow> bool" where
  "isFinite (Finite q) = True"
| "isFinite PosInf = False"
| "isFinite NegInf = False"
| "isFinite NaN = False"

datatype error =
    BadInput string
  | BadServerResponse string
  | ExternalError string

text \<open>
  \<^verbatim>\<open>json.RawMessage\<close>: a byte slice that may be \<^verbatim>\<open>nil\<close>. A decoder sees only the
  bytes, and a \<^verbatim>\<open>nil\<close> slice has none.
\<close>

type_synonym RawMessage = "string option"

definition bytes :: "RawMessage \<Rightarrow> string" where
  "bytes raw = (case raw of None \<Rightarrow> [] | Some b \<Rightarrow> b)"

text \<open>
  \<^verbatim>\<open>openrtb2.Imp\<close>, with the fields the adapter reads or writes. The video and
  native sub-objects are pointers of which only the presence is inspected; their
  content is kept as an opaque string.
\<close>

record Imp =
  ID :: string
  Video :: "string option"
  Native :: "string option"
  Ext :: RawMessage

record Device =
  UA :: string
  IP :: string
  IPv6 :: string

record BidRequest =
  Imp :: "Imp list"
  Device :: "Device option"

text \<open>\<^verbatim>\<open>openrtb_ext.ExtMocktioneer\<close> (lines 5-10).\<close>

record ExtMocktioneer =
  Endpoint :: string
  Bid :: float64

text \<open>\<^verbatim>\<open>adapters.ExtImpBidder\<close>: only its \<^verbatim>\<open>Bidder\<close> field is read.\<close>

record ExtImpBidder =
  Bidder :: RawMessage

text \<open>The two local types of \<^verbatim>\<open>MakeRequests\<close> (lines 79-84).\<close>

record upstreamExtMock =
  Bid :: float64

record upstreamExt =
  Mocktioneer :: "upstreamExtMock option"

text \<open>\<^verbatim>\<open>http.Header\<close>: a map from a header key to the list of its values.\<close>

type_synonym Header = "string \<rightharpoonup> string list"

record RequestData =
  Method :: string
  Uri :: string
  Body :: string
  Headers :: Header
  ImpIDs :: "string list"

record ResponseData =
  StatusCode :: int
  Body :: string

text \<open>\<^verbatim>\<open>openrtb2.Bid\<close>, \<^verbatim>\<open>openrtb2.SeatBid\<close> and \<^verbatim>\<open>openrtb2.BidResponse\<close>.\<close>

record Bid =
  ID :: string
  ImpID :: string
  AdM :: string

record SeatBid =
  Bid :: "Bid list"
  Seat :: string

record BidResponse =
  SeatBid :: "SeatBid list"
  Cur :: string

datatype BidType = BidTypeBanner | BidTypeVideo | BidTypeNative

record TypedBid =
  Bid :: Bid
  BidType :: BidType

record BidderResponse =
  Currency :: string
  Bids :: "TypedBid list"

text \<open>
  The adapter holds the parsed endpoint template; the template is kept as its text.
  A macro-parameter set is a list of macro names with their values, and
  \<^verbatim>\<open>macros.EndpointTemplateParams{}\<close> is the empty one.
\<close>

type_synonym Template = string

type_synonym TemplateParams = "(string \<times> string) list"

record adapter =
  endpoint :: Template

definition EndpointTemplateParams :: TemplateParams where
  "EndpointTemplateParams = []"

subsection \<open>External collaborators\<close>

text \<open>
  The packages the adapter calls and whose code is not part of the adapter are
  parameters: \<^verbatim>\<open>jsonutil.Unmarshal\<close> at the three types it is used at,
  \<^verbatim>\<open>macros.ResolveMacros\<close>, \<^verbatim>\<open>json.Marshal\<close> of the whole request, the decimal
  rendering of a float64 that the encoder uses, and the currency a fresh
  \<^verbatim>\<open>adapters.BidderResponse\<close> starts with.
\<close>

record externals =
  unmarshalExtImpBidder :: "string \<Rightarrow> error + ExtImpBidder"
  unmarshalExtMocktioneer :: "string \<Rightarrow> error + ExtMocktioneer"
  unmarshalBidResponse :: "string \<Rightarrow> error + BidResponse"
  ResolveMacros :: "Template \<Rightarrow> TemplateParams \<Rightarrow> error + string"
  marshalBidRequest :: "BidRequest \<Rightarrow> error + string"
  formatFloat :: "float64 \<Rightarrow> string"
  defaultCurrency :: string

text \<open>
  \<^verbatim>\<open>json.Marshal\<close> at the local type \<^verbatim>\<open>upstreamExt\<close>. Both fields are tagged
  \<^verbatim>\<open>omitempty\<close>: a nil pointer and a zero number are left out. The encoder returns
  an error for a float64 that is NaN or infinite, and for nothing else at this type.
\<close>

definition marshalUpstreamExt :: "externals \<Rightarrow> upstreamExt \<Rightarrow> error + string" where
  \<open>marshalUpstreamExt env ue =
     (case Mocktioneer ue of
        None \<Rightarrow> Inr ''{}''
      | Some m \<Rightarrow>
          if \<not> nonzero (upstreamExtMock.Bid m) then Inr ''{"mocktioneer":{}}''
          else if \<not> isFinite (upstreamExtMock.Bid m) then
            Inl (ExternalError ''json: unsupported value'')
          else
            Inr (''{"mocktioneer":{"bid":'' @ formatFloat env (upstreamExtMock.Bid m) @ ''}}''))\<close>

text \<open>
  Modelled from the spec: \<^verbatim>\<open>openrtb_ext.GetImpIDs\<close> is not in the source; the
  spec has it give the list of line-item IDs the outbound request covers.
\<close>

definition GetImpIDs :: "Imp list \<Rightarrow> string list" where
  "GetImpIDs imps = map Imp.ID imps"

text \<open>
  Modelled from the spec: \<^verbatim>\<open>adapters.NewBidderResponseWithBidsCapacity\<close> is not in
  the source; the spec has the result start with a default currency and no bids.
  The capacity only reserves memory.
\<close>

definition NewBidderResponseWithBidsCapacity :: "externals \<Rightarrow> nat \<Rightarrow> BidderResponse" where
  "NewBidderResponseWithBidsCapacity env capacity = \<lparr>Currency = defaultCurrency env, Bids = []\<rparr>"

text \<open>\<^verbatim>\<open>fmt.Sprintf("%d", n)\<close>: the decimal digits of an integer, with its sign.\<close>

fun digits :: "nat \<Rightarrow> string" where
  "digits n =
     (if n < 10 then [''0123456789'' ! n]
      else digits (n div 10) @ [''0123456789'' ! (n mod 10)])"

definition Sprintf_d :: "int \<Rightarrow> string" where
  "Sprintf_d n = (if n < 0 then ''-'' @ digits (nat (- n)) else digits (nat n))"

text \<open>
  Reading a decimal numeral back. The adapter has no use for it; it serves to show
  that the rendering above loses nothing.
\<close>

definition digitVal :: "char \<Rightarrow> nat" where
  "digitVal c = of_char c - 48"

definition readDigits :: "string \<Rightarrow> nat" where
  "readDigits s = foldl (\<lambda>a c. 10 * a + digitVal c) 0 s"

subsection \<open>getHeaders (lines 48-65)\<close>

text \<open>
  \<^verbatim>\<open>Header.Add\<close> appends a value to the list stored under the key. The keys the
  adapter uses are written in canonical form already.
\<close>

definition Add :: "Header \<Rightarrow> string \<Rightarrow> string \<Rightarrow> Header" where
  "Add h key v = h(key \<mapsto> (case h key of None \<Rightarrow> [] | Some vs \<Rightarrow> vs) @ [v])"

definition getHeaders :: "BidRequest \<Rightarrow> Header" where
  "getHeaders req =
     (let h = Map.empty;
          h = Add h ''Content-Type'' ''application/json;charset=utf-8'';
          h = Add h ''Accept'' ''application/json'';
          h = Add h ''X-Openrtb-Version'' ''2.5''
      in case Device req of
           None \<Rightarrow> h
         | Some d \<Rightarrow>
             (let h = (if length (UA d) > 0 then Add h ''User-Agent'' (UA d) else h);
                  h = (if length (IPv6 d) > 0 then Add h ''X-Forwarded-For'' (IPv6 d) else h);
                  h = (if length (IP d) > 0 then Add h ''X-Forwarded-For'' (IP d) else h)
              in h))"

subsection \<open>parseImpExt (lines 125-135)\<close>

definition parseImpExt :: "externals \<Rightarrow> Imp \<Rightarrow> error + ExtMocktioneer" where
  "parseImpExt env imp =
     (case unmarshalExtImpBidder env (bytes (Ext imp)) of
        Inl err \<Rightarrow> Inl (BadInput ''ext.bidder not provided'')
      | Inr bidderExt \<Rightarrow>
          (case unmarshalExtMocktioneer env (bytes (Bidder bidderExt)) of
             Inl err \<Rightarrow> Inl (BadInput ''ext.bidder not provided'')
           | Inr ext \<Rightarrow> Inr ext))"

subsection \<open>MakeRequests (lines 67-123)\<close>

text \<open>
  The body of the loop of lines 85-100, on one line item. When the encoder fails
  (line 89) nothing is assigned and the line item keeps its extension.
\<close>

definition rewriteImp :: "externals \<Rightarrow> Imp \<Rightarrow> Imp" where
  "rewriteImp env imp =
     (case parseImpExt env imp of
        Inr ext \<Rightarrow>
          if nonzero (ExtMocktioneer.Bid ext) then
            (let ue = \<lparr>Mocktioneer = Some \<lparr>upstreamExtMock.Bid = ExtMocktioneer.Bid ext\<rparr>\<rparr>
             in case marshalUpstreamExt env ue of
                  Inr raw \<Rightarrow> imp\<lparr>Ext := Some raw\<rparr>
                | Inl mErr \<Rightarrow> imp)
          else imp\<lparr>Ext := None\<rparr>
      | Inl err \<Rightarrow> imp\<lparr>Ext := None\<rparr>)"

text \<open>
  The loop itself: iteration \<open>i\<close> reads and writes line item \<open>i\<close> only, so the
  loop is a recursion along the list.
\<close>

fun rewriteImps :: "externals \<Rightarrow> Imp list \<Rightarrow> Imp list" where
  "rewriteImps env [] = []"
| "rewriteImps env (imp # imps) = rewriteImp env imp # rewriteImps env imps"

text \<open>
  Lines 69-76: the endpoint override of the first line item, read before the loop
  rewrites the extensions; the empty string when there is none.
\<close>

definition endpointOverride :: "externals \<Rightarrow> BidRequest \<Rightarrow> string" where
  "endpointOverride env ortbReq =
     (if length (Imp ortbReq) > 0 then
        (case parseImpExt env (Imp ortbReq ! 0) of
           Inr ext \<Rightarrow> if length (Endpoint ext) > 0 then Endpoint ext else ''''
         | Inl err \<Rightarrow> '''')
      else '''')"

text \<open>
  The result is the request as the call leaves it, the outbound requests and the
  errors.
\<close>

definition MakeRequests ::
  "adapter \<Rightarrow> externals \<Rightarrow> BidRequest \<Rightarrow> BidRequest \<times> RequestData list \<times> error list" where
  "MakeRequests a env ortbReq =
     (let endpointURL = endpointOverride env ortbReq;
          ortbReq' = ortbReq\<lparr>Imp := rewriteImps env (Imp ortbReq)\<rparr>
      in case (if endpointURL = ''''
               then ResolveMacros env (endpoint a) EndpointTemplateParams
               else Inr endpointURL) of
           Inl err \<Rightarrow> (ortbReq', [], [err])
         | Inr url \<Rightarrow>
             (case marshalBidRequest env ortbReq' of
                Inl err \<Rightarrow> (ortbReq', [], [err])
              | Inr body \<Rightarrow>
                  (ortbReq',
                   [\<lparr>Method = ''POST'', Uri = url, RequestData.Body = body,
                     Headers = getHeaders ortbReq',
                     ImpIDs = GetImpIDs (Imp ortbReq')\<rparr>],
                   [])))"

subsection \<open>mediaTypeForImp (lines 168-182)\<close>

fun mediaTypeForImp :: "string \<Rightarrow> Imp list \<Rightarrow> BidType" where
  "mediaTypeForImp impID [] = BidTypeBanner"
| "mediaTypeForImp impID (imp # imps) =
     (if Imp.ID imp = impID then
        (if Video imp \<noteq> None then BidTypeVideo
         else if Native imp \<noteq> None then BidTypeNative
         else BidTypeBanner)
      else mediaTypeForImp impID imps)"

subsection \<open>MakeBids (lines 137-166)\<close>

text \<open>
  The loop of lines 159-164 appends one typed bid for each bid of the seat. The
  loop variable is a fresh copy of the bid in every iteration (the meaning of a
  range loop since Go 1.22), so each typed bid holds the bid of its own
  iteration.
\<close>

fun appendBids :: "Imp list \<Rightarrow> TypedBid list \<Rightarrow> Bid list \<Rightarrow> TypedBid list" where
  "appendBids imps acc [] = acc"
| "appendBids imps acc (b # bs) =
     appendBids imps (acc @ [\<lparr>TypedBid.Bid = b, BidType = mediaTypeForImp (ImpID b) imps\<rparr>]) bs"

definition MakeBids ::
  "externals \<Rightarrow> BidRequest \<Rightarrow> RequestData \<Rightarrow> ResponseData \<Rightarrow> BidderResponse option \<times> error list" where
  "MakeBids env ortbReq reqToBidder respData =
     (if StatusCode respData = 204 then (None, [])
      else if StatusCode respData \<noteq> 200 then
        (None, [BadServerResponse (''unexpected status: '' @ Sprintf_d (StatusCode respData))])
      else
        (case unmarshalBidResponse env (ResponseData.Body respData) of
           Inl err \<Rightarrow> (None, [BadServerResponse ''invalid JSON''])
         | Inr bidResp \<Rightarrow>
             if length (SeatBid bidResp) = 0 then (None, [BadServerResponse ''empty seatbid''])
             else
               (let br = NewBidderResponseWithBidsCapacity env 5;
                    br = (if Cur bidResp \<noteq> '''' then br\<lparr>Currency := Cur bidResp\<rparr> else br);
                    sb = SeatBid bidResp ! 0
                in (Some (br\<lparr>Bids := appendBids (Imp ortbReq) (Bids br) (SeatBid.Bid sb)\<rparr>),
                    []))))"

subsection \<open>Concrete inputs\<close>

text \<open>
  Inputs on which the definitions are evaluated below. \<open>demoExternals\<close> decodes the
  few byte strings that occur in them and rejects every other one; its template
  expansion fails on a template that names a field the parameter set does not have,
  and its request encoder fails on a request with exactly one line item. The
  response body \<^verbatim>\<open>{"cur":"EUR","seatbid":[...]}\<close> stands for the encoding of
  \<open>demoBidResponse\<close>, which has two seats.
\<close>

definition demoBidResponse :: BidResponse where
  "demoBidResponse =
     \<lparr>SeatBid =
        [\<lparr>SeatBid.Bid = [\<lparr>Bid.ID = ''b1'', ImpID = ''2'', AdM = ''<VAST/>''\<rparr>,
                         \<lparr>Bid.ID = ''b2'', ImpID = ''3'', AdM = ''{}''\<rparr>,
                         \<lparr>Bid.ID = ''b3'', ImpID = ''1'', AdM = ''<div/>''\<rparr>,
                         \<lparr>Bid.ID = ''b4'', ImpID = ''9'', AdM = ''<div/>''\<rparr>],
          Seat = ''mocktioneer''\<rparr>,
         \<lparr>SeatBid.Bid = [\<lparr>Bid.ID = ''b5'', ImpID = ''1'', AdM = ''<div/>''\<rparr>],
          Seat = ''other''\<rparr>],
      Cur = ''EUR''\<rparr>"

definition demoExternals :: externals where
  \<open>demoExternals =
     \<lparr>unmarshalExtImpBidder = (\<lambda>s.
          if s = ''{"bidder":{"bid":5.5}}'' then Inr \<lparr>Bidder = Some ''{"bid":5.5}''\<rparr>
          else if s = ''{"bidder":{"endpoint":"http://x"}}''
            then Inr \<lparr>Bidder = Some ''{"endpoint":"http://x"}''\<rparr>
          else if s = ''{}'' then Inr \<lparr>Bidder = None\<rparr>
          else Inl (ExternalError ''invalid character'')),
      unmarshalExtMocktioneer = (\<lambda>s.
          if s = ''{"bid":5.5}'' then Inr \<lparr>Endpoint = '''', ExtMocktioneer.Bid = Finite (11 / 2)\<rparr>
          else if s = ''{"endpoint":"http://x"}''
            then Inr \<lparr>Endpoint = ''http://x'', ExtMocktioneer.Bid = Finite 0\<rparr>
          else Inl (ExternalError ''unexpected end of JSON input'')),
      unmarshalBidResponse = (\<lambda>s.
          if s = ''{"cur":"EUR","seatbid":[...]}'' then Inr demoBidResponse
          else if s = ''{}'' then Inr \<lparr>SeatBid = [], Cur = ''''\<rparr>
          else Inl (ExternalError ''invalid character'')),
      ResolveMacros = (\<lambda>t ps.
          if t = ''http://m/{{.Nope}}'' then Inl (ExternalError ''can't evaluate field Nope'')
          else Inr t),
      marshalBidRequest = (\<lambda>r.
          if length (Imp r) = 1 then Inl (ExternalError ''json: error calling MarshalJSON'')
          else Inr ''{...}''),
      formatFloat = (\<lambda>f. if f = Finite (11 / 2) then ''5.5'' else ''?''),
      defaultCurrency = ''USD''\<rparr>\<close>

definition demoRequest :: BidRequest where
  \<open>demoRequest =
     \<lparr>Imp = [\<lparr>Imp.ID = ''1'', Video = None, Native = None,
              Ext = Some ''{"bidder":{"bid":5.5}}''\<rparr>,
             \<lparr>Imp.ID = ''2'', Video = Some ''v'', Native = None,
              Ext = Some ''{"bidder":{"endpoint":"http://x"}}''\<rparr>,
             \<lparr>Imp.ID = ''3'', Video = None, Native = Some ''n'', Ext = Some ''{''\<rparr>],
      Device = Some \<lparr>UA = ''ua'', IP = ''1.2.3.4'', IPv6 = ''::1''\<rparr>\<rparr>\<close>

definition overrideRequest :: BidRequest where
  \<open>overrideRequest =
     \<lparr>Imp = [\<lparr>Imp.ID = ''2'', Video = Some ''v'', Native = None,
              Ext = Some ''{"bidder":{"endpoint":"http://x"}}''\<rparr>,
             \<lparr>Imp.ID = ''1'', Video = None, Native = None,
              Ext = Some ''{"bidder":{"bid":5.5}}''\<rparr>],
      Device = None\<rparr>\<close>

definition singleRequest :: BidRequest where
  \<open>singleRequest =
     \<lparr>Imp = [\<lparr>Imp.ID = ''1'', Video = None, Native = None, Ext = None\<rparr>],
      Device = None\<rparr>\<close>

definition emptyRequest :: BidRequest where
  "emptyRequest = \<lparr>Imp = [], Device = None\<rparr>"

definition demoAdapter :: adapter where
  "demoAdapter = \<lparr>endpoint = ''http://m''\<rparr>"

definition brokenAdapter :: adapter where
  "brokenAdapter = \<lparr>endpoint = ''http://m/{{.Nope}}''\<rparr>"

definition demoRequestData :: RequestData where
  "demoRequestData =
     \<lparr>Method = ''POST'', Uri = ''http://m'', RequestData.Body = ''{...}'',
      Headers = getHeaders demoRequest, ImpIDs = [''1'', ''2'', ''3'']\<rparr>"

section \<open>Properties\<close>

subsection \<open>Auxiliary facts\<close>

lemma rewriteImps_map: "rewriteImps env imps = map (rewriteImp env) imps"
  by (induction imps) simp_all

lemma MakeRequests_fst:
  "fst (MakeRequests a env ortbReq) = ortbReq\<lparr>Imp := map (rewriteImp env) (Imp ortbReq)\<rparr>"
  by (simp add: MakeRequests_def Let_def rewriteImps_map split: sum.splits)

lemma rewriteImp_frame:
  "Imp.ID (rewriteImp env imp) = Imp.ID imp"
  "Video (rewriteImp env imp) = Video imp"
  "Native (rewriteImp env imp) = Native imp"
  by (simp_all add: rewriteImp_def Let_def split: sum.splits)

text \<open>What \<open>demoExternals\<close> makes of the three line items of \<open>demoRequest\<close>.\<close>

lemma demo_parse_0:
  "parseImpExt demoExternals (Imp demoRequest ! 0) =
     Inr \<lparr>Endpoint = '''', ExtMocktioneer.Bid = Finite (11 / 2)\<rparr>"
  by (simp add: demoRequest_def demoExternals_def parseImpExt_def bytes_def)

lemma demo_parse_1:
  "parseImpExt demoExternals (Imp demoRequest ! 1) =
     Inr \<lparr>Endpoint = ''http://x'', ExtMocktioneer.Bid = Finite 0\<rparr>"
  by (simp add: demoRequest_def demoExternals_def parseImpExt_def bytes_def)

lemma demo_parse_2:
  "parseImpExt demoExternals (Imp demoRequest ! 2) = Inl (BadInput ''ext.bidder not provided'')"
  by (simp add: demoRequest_def demoExternals_def parseImpExt_def bytes_def)

subsection \<open>The request builder\<close>

text \<open>
  Claim C1. After \<^verbatim>\<open>MakeRequests\<close> has run, the extension of every line item has one
  of two shapes. If the original extension parsed and its \<^verbatim>\<open>Bid\<close> is not zero, it is
  the minimal payload \<^verbatim>\<open>{"mocktioneer":{"bid":Bid}}\<close> and nothing else; if the parse
  failed, the extension was absent or \<^verbatim>\<open>Bid\<close> is zero, it is cleared. So no line item
  keeps its bidder-params wrapper.

  The second premise says that the number the decoder has put into \<^verbatim>\<open>Bid\<close>, if it
  has decoded the extension, is finite. Every number read from JSON text is: the
  text has no notation for NaN or for an infinity, and a number too large for a
  float64 is a decoding error. The premise is needed because the encoder of line 89
  refuses NaN and the infinities, and line 89 has no else branch.
\<close>

theorem MakeRequests_ext_shape:
  assumes "i < length (Imp ortbReq)"
      and "case parseImpExt env (Imp ortbReq ! i) of
             Inl err \<Rightarrow> True
           | Inr e \<Rightarrow> isFinite (ExtMocktioneer.Bid e)"
  shows \<open>Ext (Imp (fst (MakeRequests a env ortbReq)) ! i) =
           (case parseImpExt env (Imp ortbReq ! i) of
              Inl err \<Rightarrow> None
            | Inr e \<Rightarrow>
                if nonzero (ExtMocktioneer.Bid e)
                then Some (''{"mocktioneer":{"bid":'' @ formatFloat env (ExtMocktioneer.Bid e) @ ''}}'')
                else None)\<close>
  using assms
  by (simp add: MakeRequests_fst rewriteImp_def marshalUpstreamExt_def Let_def split: sum.splits)

text \<open>
  On \<open>demoRequest\<close>: the first line item carries the bid 5.5, the second one only an
  endpoint, and the extension of the third one is malformed.
\<close>

theorem MakeRequests_ext_shape_witness:
  \<open>(0 < length (Imp demoRequest) \<and>
    (case parseImpExt demoExternals (Imp demoRequest ! 0) of
       Inl err \<Rightarrow> True
     | Inr e \<Rightarrow> isFinite (ExtMocktioneer.Bid e)) \<and>
    parseImpExt demoExternals (Imp demoRequest ! 0) =
      Inr \<lparr>Endpoint = '''', ExtMocktioneer.Bid = Finite (11 / 2)\<rparr> \<and>
    Ext (Imp (fst (MakeRequests demoAdapter demoExternals demoRequest)) ! 0) =
      Some ''{"mocktioneer":{"bid":5.5}}'') \<and>
   (1 < length (Imp demoRequest) \<and>
    (case parseImpExt demoExternals (Imp demoRequest ! 1) of
       Inl err \<Rightarrow> True
     | Inr e \<Rightarrow> isFinite (ExtMocktioneer.Bid e)) \<and>
    parseImpExt demoExternals (Imp demoRequest ! 1) =
      Inr \<lparr>Endpoint = ''http://x'', ExtMocktioneer.Bid = Finite 0\<rparr> \<and>
    Ext (Imp (fst (MakeRequests demoAdapter demoExternals demoRequest)) ! 1) = None) \<and>
   (2 < length (Imp demoRequest) \<and>
    (case parseImpExt demoExternals (Imp demoRequest ! 2) of
       Inl err \<Rightarrow> True
     | Inr e \<Rightarrow> isFinite (ExtMocktioneer.Bid e)) \<and>
    parseImpExt demoExternals (Imp demoRequest ! 2) = Inl (BadInput ''ext.bidder not provided'') \<and>
    Ext (Imp (fst (MakeRequests demoAdapter demoExternals demoRequest)) ! 2) = None)\<close>
proof -
  have len: "0 < length (Imp demoRequest)" "1 < length (Imp demoRequest)"
    "2 < length (Imp demoRequest)"
    by (simp_all add: demoRequest_def)
  have f0: "case parseImpExt demoExternals (Imp demoRequest ! 0) of
      Inl err \<Rightarrow> True | Inr e \<Rightarrow> isFinite (ExtMocktioneer.Bid e)"
    using demo_parse_0 by simp
  have f1: "case parseImpExt demoExternals (Imp demoRequest ! 1) of
      Inl err \<Rightarrow> True | Inr e \<Rightarrow> isFinite (ExtMocktioneer.Bid e)"
    using demo_parse_1 by simp
  have f2: "case parseImpExt demoExternals (Imp demoRequest ! 2) of
      Inl err \<Rightarrow> True | Inr e \<Rightarrow> isFinite (ExtMocktioneer.Bid e)"
    using demo_parse_2 by simp
  have fmt: "formatFloat demoExternals (Finite (11 / 2)) = ''5.5''"
    by (simp add: demoExternals_def)
  have a: \<open>Ext (Imp (fst (MakeRequests demoAdapter demoExternals demoRequest)) ! 0) =
     Some ''{"mocktioneer":{"bid":5.5}}''\<close>
    using MakeRequests_ext_shape [OF len(1) f0, of demoAdapter] demo_parse_0 fmt by simp
  have b: "Ext (Imp (fst (MakeRequests demoAdapter demoExternals demoRequest)) ! 1) = None"
    using MakeRequests_ext_shape [OF len(2) f1, of demoAdapter] demo_parse_1 by simp
  have c: "Ext (Imp (fst (MakeRequests demoAdapter demoExternals demoRequest)) ! 2) = None"
    using MakeRequests_ext_shape [OF len(3) f2, of demoAdapter] demo_parse_2 by simp
  show ?thesis
    using len f0 f1 f2 demo_parse_0 demo_parse_1 demo_parse_2 a b c by blast
qed

text \<open>
  What the finiteness premise is for: with a \<^verbatim>\<open>Bid\<close> that is NaN or infinite the
  encoder fails and the line item is left as it was.
\<close>

lemma rewriteImp_not_finite:
  "parseImpExt env imp = Inr e \<Longrightarrow> \<not> isFinite (ExtMocktioneer.Bid e) \<Longrightarrow> rewriteImp env imp = imp"
  by (cases "ExtMocktioneer.Bid e") (simp_all add: rewriteImp_def marshalUpstreamExt_def)

text \<open>
  Claim C9. \<^verbatim>\<open>MakeRequests\<close> writes to the extensions of the line items and to nothing
  else: the number of line items, the ID and the video and native sub-objects of
  each of them, and the device context are the same before and after the call,
  whether the call succeeds or not.
\<close>

theorem MakeRequests_frame:
  "length (Imp (fst (MakeRequests a env ortbReq))) = length (Imp ortbReq) \<and>
   map Imp.ID (Imp (fst (MakeRequests a env ortbReq))) = map Imp.ID (Imp ortbReq) \<and>
   map Video (Imp (fst (MakeRequests a env ortbReq))) = map Video (Imp ortbReq) \<and>
   map Native (Imp (fst (MakeRequests a env ortbReq))) = map Native (Imp ortbReq) \<and>
   Device (fst (MakeRequests a env ortbReq)) = Device ortbReq"
  by (simp add: MakeRequests_fst rewriteImp_frame)

text \<open>The outcome of \<^verbatim>\<open>MakeRequests\<close>, apart from the request it leaves.\<close>

lemma MakeRequests_snd:
  "snd (MakeRequests a env ortbReq) =
     (case (if endpointOverride env ortbReq = ''''
            then ResolveMacros env (endpoint a) EndpointTemplateParams
            else Inr (endpointOverride env ortbReq)) of
        Inl err \<Rightarrow> ([], [err])
      | Inr url \<Rightarrow>
          (case marshalBidRequest env (fst (MakeRequests a env ortbReq)) of
             Inl err \<Rightarrow> ([], [err])
           | Inr body \<Rightarrow>
               ([\<lparr>Method = ''POST'', Uri = url, RequestData.Body = body,
                  Headers = getHeaders (fst (MakeRequests a env ortbReq)),
                  ImpIDs = GetImpIDs (Imp (fst (MakeRequests a env ortbReq)))\<rparr>], [])))"
  by (simp add: MakeRequests_def Let_def split: sum.splits)

lemma endpointOverride_Some:
  "Imp ortbReq \<noteq> [] \<Longrightarrow> parseImpExt env (Imp ortbReq ! 0) = Inr ext \<Longrightarrow> Endpoint ext \<noteq> '''' \<Longrightarrow>
   endpointOverride env ortbReq = Endpoint ext"
  by (simp add: endpointOverride_def)

lemma endpointOverride_None:
  "\<not> (Imp ortbReq \<noteq> [] \<and> (\<exists>ext. parseImpExt env (Imp ortbReq ! 0) = Inr ext \<and> Endpoint ext \<noteq> '''')) \<Longrightarrow>
   endpointOverride env ortbReq = ''''"
  by (auto simp: endpointOverride_def split: sum.splits)

text \<open>The adapter's own steps do not consult the template expansion.\<close>

lemma parseImpExt_ResolveMacros:
  "parseImpExt (env\<lparr>ResolveMacros := r\<rparr>) imp = parseImpExt env imp"
  by (simp add: parseImpExt_def split: sum.splits)

lemma rewriteImp_ResolveMacros:
  "rewriteImp (env\<lparr>ResolveMacros := r\<rparr>) = rewriteImp env"
  by (rule ext) (simp add: rewriteImp_def parseImpExt_ResolveMacros marshalUpstreamExt_def Let_def
      split: sum.splits option.splits)

lemma endpointOverride_ResolveMacros:
  "endpointOverride (env\<lparr>ResolveMacros := r\<rparr>) ortbReq = endpointOverride env ortbReq"
  by (simp add: endpointOverride_def parseImpExt_ResolveMacros)

text \<open>
  Claim C2. The URL of the outbound request: if the request has a line item and
  the extension of the first one parses to an extension with a non-empty
  \<^verbatim>\<open>Endpoint\<close>, the URL is that string as it stands, and neither the configured
  template nor its expansion has any part in the outcome; otherwise the URL is the
  configured template expanded with the empty parameter set.
\<close>

theorem MakeRequests_resolved_url:
  assumes "snd (MakeRequests a env ortbReq) = ([rd], [])"
  shows "(\<forall>ext. Imp ortbReq \<noteq> [] \<and> parseImpExt env (Imp ortbReq ! 0) = Inr ext \<and> Endpoint ext \<noteq> '''' \<longrightarrow>
            Uri rd = Endpoint ext \<and>
            (\<forall>a' r. snd (MakeRequests a' (env\<lparr>ResolveMacros := r\<rparr>) ortbReq) = ([rd], []))) \<and>
         (\<not> (Imp ortbReq \<noteq> [] \<and>
              (\<exists>ext. parseImpExt env (Imp ortbReq ! 0) = Inr ext \<and> Endpoint ext \<noteq> '''')) \<longrightarrow>
            ResolveMacros env (endpoint a) EndpointTemplateParams = Inr (Uri rd))"
proof (intro conjI allI impI)
  fix ext
  assume h: "Imp ortbReq \<noteq> [] \<and> parseImpExt env (Imp ortbReq ! 0) = Inr ext \<and> Endpoint ext \<noteq> ''''"
  then have ov: "endpointOverride env ortbReq = Endpoint ext"
    by (simp add: endpointOverride_Some)
  with h assms show "Uri rd = Endpoint ext"
    by (auto simp: MakeRequests_snd split: sum.splits)
  fix a' r
  from h ov assms show "snd (MakeRequests a' (env\<lparr>ResolveMacros := r\<rparr>) ortbReq) = ([rd], [])"
    by (simp add: MakeRequests_snd MakeRequests_fst endpointOverride_ResolveMacros
        rewriteImp_ResolveMacros split: sum.splits)
next
  assume "\<not> (Imp ortbReq \<noteq> [] \<and>
              (\<exists>ext. parseImpExt env (Imp ortbReq ! 0) = Inr ext \<and> Endpoint ext \<noteq> ''''))"
  then have "endpointOverride env ortbReq = ''''"
    by (rule endpointOverride_None)
  with assms show "ResolveMacros env (endpoint a) EndpointTemplateParams = Inr (Uri rd)"
    by (auto simp: MakeRequests_snd split: sum.splits)
qed

text \<open>The equations that evaluate \<^verbatim>\<open>MakeRequests\<close> on the concrete inputs.\<close>

lemmas demo_eval =
  MakeRequests_def Let_def endpointOverride_def parseImpExt_def bytes_def rewriteImp_def
  marshalUpstreamExt_def GetImpIDs_def EndpointTemplateParams_def demoExternals_def
  demoRequest_def overrideRequest_def singleRequest_def emptyRequest_def demoAdapter_def
  brokenAdapter_def

lemma demo_override_result:
  "snd (MakeRequests brokenAdapter demoExternals overrideRequest) =
     ([hd (fst (snd (MakeRequests brokenAdapter demoExternals overrideRequest)))], [])"
  "Uri (hd (fst (snd (MakeRequests brokenAdapter demoExternals overrideRequest)))) = ''http://x''"
  by (simp_all add: demo_eval)

lemma demo_template_result:
  "snd (MakeRequests demoAdapter demoExternals demoRequest) =
     ([hd (fst (snd (MakeRequests demoAdapter demoExternals demoRequest)))], [])"
  "Uri (hd (fst (snd (MakeRequests demoAdapter demoExternals demoRequest)))) = ''http://m''"
  by (simp_all add: demo_eval)

text \<open>
  On \<open>overrideRequest\<close>, whose first line item overrides the endpoint, with an
  adapter whose template cannot be expanded; and on \<open>demoRequest\<close>, where only the
  second line item names an endpoint, so that the template \<^verbatim>\<open>http://m\<close> is expanded.
\<close>

theorem MakeRequests_resolved_url_witness:
  "(snd (MakeRequests brokenAdapter demoExternals overrideRequest) =
      ([hd (fst (snd (MakeRequests brokenAdapter demoExternals overrideRequest)))], []) \<and>
    Imp overrideRequest \<noteq> [] \<and>
    parseImpExt demoExternals (Imp overrideRequest ! 0) =
      Inr \<lparr>Endpoint = ''http://x'', ExtMocktioneer.Bid = Finite 0\<rparr> \<and>
    Uri (hd (fst (snd (MakeRequests brokenAdapter demoExternals overrideRequest)))) = ''http://x'' \<and>
    snd (MakeRequests demoAdapter
          (demoExternals\<lparr>ResolveMacros := \<lambda>t ps. Inl (ExternalError ''no expansion'')\<rparr>)
          overrideRequest) =
      snd (MakeRequests brokenAdapter demoExternals overrideRequest)) \<and>
   (snd (MakeRequests demoAdapter demoExternals demoRequest) =
      ([hd (fst (snd (MakeRequests demoAdapter demoExternals demoRequest)))], []) \<and>
    parseImpExt demoExternals (Imp demoRequest ! 0) =
      Inr \<lparr>Endpoint = '''', ExtMocktioneer.Bid = Finite (11 / 2)\<rparr> \<and>
    ResolveMacros demoExternals (endpoint demoAdapter) EndpointTemplateParams = Inr ''http://m'' \<and>
    Uri (hd (fst (snd (MakeRequests demoAdapter demoExternals demoRequest)))) = ''http://m'')"
proof -
  let ?rd1 = "hd (fst (snd (MakeRequests brokenAdapter demoExternals overrideRequest)))"
  let ?rd2 = "hd (fst (snd (MakeRequests demoAdapter demoExternals demoRequest)))"
  have ne: "Imp overrideRequest \<noteq> []"
    by (simp add: overrideRequest_def)
  have p: "parseImpExt demoExternals (Imp overrideRequest ! 0) =
      Inr \<lparr>Endpoint = ''http://x'', ExtMocktioneer.Bid = Finite 0\<rparr>"
    by (simp add: demo_eval)
  note t1 = MakeRequests_resolved_url [OF demo_override_result(1)]
  from t1 ne p have a: "Uri ?rd1 = ''http://x''"
    by simp
  from t1 ne p have b: "snd (MakeRequests demoAdapter
          (demoExternals\<lparr>ResolveMacros := \<lambda>t ps. Inl (ExternalError ''no expansion'')\<rparr>)
          overrideRequest) = ([?rd1], [])"
    by simp
  note t2 = MakeRequests_resolved_url [OF demo_template_result(1)]
  have no: "\<not> (Imp demoRequest \<noteq> [] \<and>
      (\<exists>ext. parseImpExt demoExternals (Imp demoRequest ! 0) = Inr ext \<and> Endpoint ext \<noteq> ''''))"
    using demo_parse_0 by simp
  from t2 no have c: "ResolveMacros demoExternals (endpoint demoAdapter) EndpointTemplateParams =
      Inr (Uri ?rd2)"
    by blast
  have d: "ResolveMacros demoExternals (endpoint demoAdapter) EndpointTemplateParams = Inr ''http://m''"
    by (simp add: demo_eval)
  from c d have e: "Uri ?rd2 = ''http://m''"
    by simp
  show ?thesis
    using demo_override_result(1) ne p a b demo_template_result(1) demo_parse_0 d e by simp
qed

text \<open>
  Claim C6. \<^verbatim>\<open>MakeRequests\<close> ends in one of two ways: with exactly one outbound
  request and no error (one upstream call for the auction, however many line items
  it has), or with no outbound request and a non-empty list of errors. An error of
  the template expansion, when the expansion is called for, gives the second
  outcome with that error, and so does an error of the body encoding.
\<close>

theorem MakeRequests_one_or_error:
  "((\<exists>rd. snd (MakeRequests a env ortbReq) = ([rd], [])) \<or>
    (\<exists>err. snd (MakeRequests a env ortbReq) = ([], [err]))) \<and>
   (\<forall>err. endpointOverride env ortbReq = '''' \<and>
          ResolveMacros env (endpoint a) EndpointTemplateParams = Inl err \<longrightarrow>
          snd (MakeRequests a env ortbReq) = ([], [err])) \<and>
   (\<forall>err. marshalBidRequest env (fst (MakeRequests a env ortbReq)) = Inl err \<longrightarrow>
          fst (snd (MakeRequests a env ortbReq)) = [] \<and>
          snd (snd (MakeRequests a env ortbReq)) \<noteq> [])"
  by (simp add: MakeRequests_snd split: sum.splits)

text \<open>
  A request that gets through, one whose template cannot be expanded, and one
  that the encoder refuses.
\<close>

theorem MakeRequests_one_or_error_witness:
  "snd (MakeRequests demoAdapter demoExternals demoRequest) =
     ([hd (fst (snd (MakeRequests demoAdapter demoExternals demoRequest)))], []) \<and>
   (endpointOverride demoExternals emptyRequest = '''' \<and>
    ResolveMacros demoExternals (endpoint brokenAdapter) EndpointTemplateParams =
      Inl (ExternalError ''can't evaluate field Nope'') \<and>
    snd (MakeRequests brokenAdapter demoExternals emptyRequest) =
      ([], [ExternalError ''can't evaluate field Nope''])) \<and>
   (marshalBidRequest demoExternals (fst (MakeRequests demoAdapter demoExternals singleRequest)) =
      Inl (ExternalError ''json: error calling MarshalJSON'') \<and>
    fst (snd (MakeRequests demoAdapter demoExternals singleRequest)) = [] \<and>
    snd (snd (MakeRequests demoAdapter demoExternals singleRequest)) \<noteq> [])"
proof -
  have o: "endpointOverride demoExternals emptyRequest = ''''"
    by (simp add: demo_eval)
  have r: "ResolveMacros demoExternals (endpoint brokenAdapter) EndpointTemplateParams =
      Inl (ExternalError ''can't evaluate field Nope'')"
    by (simp add: demo_eval)
  have m: "marshalBidRequest demoExternals (fst (MakeRequests demoAdapter demoExternals singleRequest)) =
      Inl (ExternalError ''json: error calling MarshalJSON'')"
    by (simp add: demo_eval)
  from MakeRequests_one_or_error [of brokenAdapter demoExternals emptyRequest] o r
  have a: "snd (MakeRequests brokenAdapter demoExternals emptyRequest) =
      ([], [ExternalError ''can't evaluate field Nope''])"
    by blast
  from MakeRequests_one_or_error [of demoAdapter demoExternals singleRequest] m
  have b: "fst (snd (MakeRequests demoAdapter demoExternals singleRequest)) = [] \<and>
      snd (snd (MakeRequests demoAdapter demoExternals singleRequest)) \<noteq> []"
    by blast
  show ?thesis
    using demo_template_result(1) o r a m b by simp
qed

text \<open>
  Claim C10, as stated, fails: a request without line items is not bound to succeed.
  With a template that cannot be expanded the call returns no outbound request and
  the expansion error.
\<close>

theorem MakeRequests_no_imps_counterexample:
  "Imp emptyRequest = [] \<and>
   snd (MakeRequests brokenAdapter demoExternals emptyRequest) =
     ([], [ExternalError ''can't evaluate field Nope''])"
  by (simp add: demo_eval)

text \<open>
  Claim C10, amended. For a request without line items, when the expansion of the
  configured template and the encoding of the body succeed, \<^verbatim>\<open>MakeRequests\<close> returns
  exactly one outbound request and no error; its URL is the expanded template and
  its list of line-item IDs is empty. The request itself is left as it was.
\<close>

theorem MakeRequests_no_imps:
  assumes "Imp ortbReq = []"
      and "ResolveMacros env (endpoint a) EndpointTemplateParams = Inr url"
      and "marshalBidRequest env ortbReq = Inr body"
  shows "MakeRequests a env ortbReq =
           (ortbReq,
            [\<lparr>Method = ''POST'', Uri = url, RequestData.Body = body,
              Headers = getHeaders ortbReq, ImpIDs = []\<rparr>],
            [])"
proof -
  have same: "ortbReq\<lparr>Imp := []\<rparr> = ortbReq"
    using assms(1) by (cases ortbReq) simp
  show ?thesis
    using assms
    by (simp add: MakeRequests_def Let_def endpointOverride_def GetImpIDs_def same)
qed

theorem MakeRequests_no_imps_witness:
  "Imp emptyRequest = [] \<and>
   ResolveMacros demoExternals (endpoint demoAdapter) EndpointTemplateParams = Inr ''http://m'' \<and>
   marshalBidRequest demoExternals emptyRequest = Inr ''{...}'' \<and>
   MakeRequests demoAdapter demoExternals emptyRequest =
     (emptyRequest,
      [\<lparr>Method = ''POST'', Uri = ''http://m'', RequestData.Body = ''{...}'',
        Headers = getHeaders emptyRequest, ImpIDs = []\<rparr>],
      [])"
proof -
  have i: "Imp emptyRequest = []"
    by (simp add: emptyRequest_def)
  have r: "ResolveMacros demoExternals (endpoint demoAdapter) EndpointTemplateParams = Inr ''http://m''"
    by (simp add: demo_eval)
  have m: "marshalBidRequest demoExternals emptyRequest = Inr ''{...}''"
    by (simp add: demo_eval)
  show ?thesis
    using i r m MakeRequests_no_imps [OF i r m] by simp
qed

text \<open>
  What \<^verbatim>\<open>getHeaders\<close> builds, for any request: the three fixed headers; with a
  device context, its user agent when it is not empty, and its IPv6 address and
  then its IPv4 address, each when it is not empty, as values of
  \<^verbatim>\<open>X-Forwarded-For\<close>; and no other header.
\<close>

lemma getHeaders_contents:
  "getHeaders req ''Content-Type'' = Some [''application/json;charset=utf-8''] \<and>
   getHeaders req ''Accept'' = Some [''application/json''] \<and>
   getHeaders req ''X-Openrtb-Version'' = Some [''2.5''] \<and>
   getHeaders req ''User-Agent'' =
     (case Device req of
        None \<Rightarrow> None
      | Some d \<Rightarrow> if UA d = '''' then None else Some [UA d]) \<and>
   getHeaders req ''X-Forwarded-For'' =
     (case Device req of
        None \<Rightarrow> None
      | Some d \<Rightarrow>
          if IPv6 d = '''' \<and> IP d = '''' then None
          else Some ((if IPv6 d = '''' then [] else [IPv6 d]) @ (if IP d = '''' then [] else [IP d]))) \<and>
   dom (getHeaders req) \<subseteq>
     {''Content-Type'', ''Accept'', ''X-Openrtb-Version'', ''User-Agent'', ''X-Forwarded-For''}"
  by (simp add: getHeaders_def Add_def Let_def split: option.splits)

text \<open>The device of \<open>demoRequest\<close> has both addresses.\<close>

lemma getHeaders_demo:
  "getHeaders demoRequest ''X-Forwarded-For'' = Some [''::1'', ''1.2.3.4''] \<and>
   getHeaders demoRequest ''User-Agent'' = Some [''ua''] \<and>
   getHeaders emptyRequest ''X-Forwarded-For'' = None"
  by (simp add: getHeaders_def Add_def Let_def demoRequest_def emptyRequest_def)

text \<open>The outbound request is given the headers of the request as the call leaves it.\<close>

lemma MakeRequests_Headers:
  assumes "snd (MakeRequests a env ortbReq) = ([rd], [])"
  shows "Headers rd = getHeaders (fst (MakeRequests a env ortbReq))"
  using assms by (auto simp: MakeRequests_snd split: sum.splits if_splits)

text \<open>
  Claim C7. The headers of the outbound request that \<^verbatim>\<open>MakeRequests\<close> returns always
  have the content type \<^verbatim>\<open>application/json;charset=utf-8\<close>, accept
  \<^verbatim>\<open>application/json\<close> and the OpenRTB version marker. When the auction request
  has a device context, its user agent is added when it is not empty, and its IPv6
  address and its IPv4 address, each when it is not empty, are added as values of
  \<^verbatim>\<open>X-Forwarded-For\<close>, the IPv6 address first: with both present the key has two
  values. There is no other header.
\<close>

theorem MakeRequests_headers:
  assumes "snd (MakeRequests a env ortbReq) = ([rd], [])"
  shows "Headers rd ''Content-Type'' = Some [''application/json;charset=utf-8''] \<and>
         Headers rd ''Accept'' = Some [''application/json''] \<and>
         Headers rd ''X-Openrtb-Version'' = Some [''2.5''] \<and>
         Headers rd ''User-Agent'' =
           (case Device ortbReq of
              None \<Rightarrow> None
            | Some d \<Rightarrow> if UA d = '''' then None else Some [UA d]) \<and>
         Headers rd ''X-Forwarded-For'' =
           (case Device ortbReq of
              None \<Rightarrow> None
            | Some d \<Rightarrow>
                if IPv6 d = '''' \<and> IP d = '''' then None
                else Some ((if IPv6 d = '''' then [] else [IPv6 d]) @
                           (if IP d = '''' then [] else [IP d]))) \<and>
         dom (Headers rd) \<subseteq>
           {''Content-Type'', ''Accept'', ''X-Openrtb-Version'', ''User-Agent'',
            ''X-Forwarded-For''}"
proof -
  have dev: "Device (fst (MakeRequests a env ortbReq)) = Device ortbReq"
    by (simp add: MakeRequests_fst)
  show ?thesis
    using getHeaders_contents [of "fst (MakeRequests a env ortbReq)"]
    unfolding MakeRequests_Headers [OF assms] dev .
qed

text \<open>
  The outbound request for \<open>demoRequest\<close>, whose device has a user agent and both
  addresses.
\<close>

theorem MakeRequests_headers_witness:
  "snd (MakeRequests demoAdapter demoExternals demoRequest) =
     ([hd (fst (snd (MakeRequests demoAdapter demoExternals demoRequest)))], []) \<and>
   Device demoRequest = Some \<lparr>UA = ''ua'', IP = ''1.2.3.4'', IPv6 = ''::1''\<rparr> \<and>
   Headers (hd (fst (snd (MakeRequests demoAdapter demoExternals demoRequest)))) ''Content-Type'' =
     Some [''application/json;charset=utf-8''] \<and>
   Headers (hd (fst (snd (MakeRequests demoAdapter demoExternals demoRequest)))) ''Accept'' =
     Some [''application/json''] \<and>
   Headers (hd (fst (snd (MakeRequests demoAdapter demoExternals demoRequest)))) ''X-Openrtb-Version'' =
     Some [''2.5''] \<and>
   Headers (hd (fst (snd (MakeRequests demoAdapter demoExternals demoRequest)))) ''User-Agent'' =
     Some [''ua''] \<and>
   Headers (hd (fst (snd (MakeRequests demoAdapter demoExternals demoRequest)))) ''X-Forwarded-For'' =
     Some [''::1'', ''1.2.3.4'']"
proof -
  have d: "Device demoRequest = Some \<lparr>UA = ''ua'', IP = ''1.2.3.4'', IPv6 = ''::1''\<rparr>"
    by (simp add: demoRequest_def)
  show ?thesis
    using demo_template_result(1) d MakeRequests_headers [OF demo_template_result(1)]
    by simp
qed

subsection \<open>The response mapper\<close>

lemma appendBids_map:
  "appendBids imps acc bs =
     acc @ map (\<lambda>b. \<lparr>TypedBid.Bid = b, BidType = mediaTypeForImp (ImpID b) imps\<rparr>) bs"
  by (induction bs arbitrary: acc) simp_all

text \<open>The outcome of \<^verbatim>\<open>MakeBids\<close> on a decoded response that has a seat.\<close>

lemma MakeBids_decoded:
  assumes "StatusCode respData = 200"
      and "unmarshalBidResponse env (ResponseData.Body respData) = Inr bidResp"
      and "SeatBid bidResp \<noteq> []"
  shows "MakeBids env ortbReq reqToBidder respData =
           (Some \<lparr>Currency = (if Cur bidResp \<noteq> '''' then Cur bidResp else defaultCurrency env),
                  Bids = map (\<lambda>b. \<lparr>TypedBid.Bid = b,
                                     BidType = mediaTypeForImp (ImpID b) (Imp ortbReq)\<rparr>)
                           (SeatBid.Bid (SeatBid bidResp ! 0))\<rparr>,
            [])"
  using assms
  by (simp add: MakeBids_def Let_def NewBidderResponseWithBidsCapacity_def appendBids_map)

lemma MakeBids_Some:
  assumes "MakeBids env ortbReq reqToBidder respData = (Some br, errs)"
  shows "\<exists>bidResp. StatusCode respData = 200 \<and>
           unmarshalBidResponse env (ResponseData.Body respData) = Inr bidResp \<and>
           SeatBid bidResp \<noteq> []"
  using assms
  by (auto simp: MakeBids_def Let_def split: if_splits sum.splits)

text \<open>
  The decimal rendering of the status code can be read back, so that status codes
  that differ give messages that differ.
\<close>

lemma digitVal_table: "map digitVal ''0123456789'' = [0..<10]"
  by (simp add: digitVal_def upt_rec)

lemma digitVal_digit:
  assumes "n < 10"
  shows "digitVal (''0123456789'' ! n) = n"
proof -
  from assms have len: "n < length ''0123456789''"
    by simp
  have "digitVal (''0123456789'' ! n) = map digitVal ''0123456789'' ! n"
    by (rule nth_map [OF len, symmetric])
  also have "\<dots> = n"
    unfolding digitVal_table using assms by simp
  finally show ?thesis .
qed

lemma digit_neq_minus:
  assumes "n < 10"
  shows "''0123456789'' ! n \<noteq> CHR ''-''"
proof -
  from assms have "''0123456789'' ! n \<in> set ''0123456789''"
    by (intro nth_mem) simp
  then show ?thesis
    by auto
qed

lemma readDigits_snoc: "readDigits (s @ [c]) = 10 * readDigits s + digitVal c"
  by (simp add: readDigits_def)

lemma readDigits_digits: "readDigits (digits n) = n"
proof (induction n rule: digits.induct)
  case (1 n)
  show ?case
  proof (cases "n < 10")
    case True
    then show ?thesis
      by (subst digits.simps) (simp add: readDigits_def digitVal_digit)
  next
    case False
    with 1 have "readDigits (digits (n div 10)) = n div 10"
      by simp
    with False show ?thesis
      by (subst digits.simps) (simp add: readDigits_snoc digitVal_digit)
  qed
qed

lemma digits_nonempty: "digits n \<noteq> []"
  by (subst digits.simps) simp

lemma hd_digits: "hd (digits n) \<noteq> CHR ''-''"
proof (induction n rule: digits.induct)
  case (1 n)
  show ?case
  proof (cases "n < 10")
    case True
    then show ?thesis
      by (subst digits.simps) (simp add: digit_neq_minus)
  next
    case False
    with 1 have "hd (digits (n div 10)) \<noteq> CHR ''-''"
      by simp
    with False show ?thesis
      by (subst digits.simps) (simp add: digits_nonempty)
  qed
qed

lemma digits_inj: "digits m = digits n \<Longrightarrow> m = n"
  by (metis readDigits_digits)

lemma Sprintf_d_inj: "Sprintf_d m = Sprintf_d n \<Longrightarrow> m = n"
proof -
  assume eq: "Sprintf_d m = Sprintf_d n"
  have neg: "hd (Sprintf_d k) = CHR ''-'' \<longleftrightarrow> k < 0" for k
    using hd_digits [of "nat k"] by (simp add: Sprintf_d_def)
  from eq neg [of m] neg [of n] have same: "m < 0 \<longleftrightarrow> n < 0"
    by simp
  show ?thesis
  proof (cases "m < 0")
    case True
    with same eq have "digits (nat (- m)) = digits (nat (- n))"
      by (simp add: Sprintf_d_def)
    then have "nat (- m) = nat (- n)"
      by (rule digits_inj)
    with True same show ?thesis by simp
  next
    case False
    with same eq have "digits (nat m) = digits (nat n)"
      by (simp add: Sprintf_d_def)
    then have "nat m = nat n"
      by (rule digits_inj)
    with False same show ?thesis by simp
  qed
qed

lemmas demo_bids_eval =
  MakeBids_def Let_def NewBidderResponseWithBidsCapacity_def Sprintf_d_def
  demoExternals_def demoBidResponse_def demoRequest_def

text \<open>
  Claim C3. \<^verbatim>\<open>MakeBids\<close> goes by the status code. Status 204 gives no bids and no
  errors. Any status other than 204 and 200 gives no bids and exactly one
  server-response error, whose message ends with the status code in decimal (and
  so tells the status code, by \<open>Sprintf_d_inj\<close>).
  Status 200 goes on to the decoding of the body, and the outcome is that of the
  decoding and of what follows it.
\<close>

theorem MakeBids_status:
  "(StatusCode respData = 204 \<longrightarrow> MakeBids env ortbReq reqToBidder respData = (None, [])) \<and>
   (StatusCode respData \<noteq> 204 \<and> StatusCode respData \<noteq> 200 \<longrightarrow>
      MakeBids env ortbReq reqToBidder respData =
        (None, [BadServerResponse (''unexpected status: '' @ Sprintf_d (StatusCode respData))])) \<and>
   (StatusCode respData = 200 \<longrightarrow>
      MakeBids env ortbReq reqToBidder respData =
        (case unmarshalBidResponse env (ResponseData.Body respData) of
           Inl err \<Rightarrow> (None, [BadServerResponse ''invalid JSON''])
         | Inr bidResp \<Rightarrow>
             if SeatBid bidResp = [] then (None, [BadServerResponse ''empty seatbid''])
             else (Some \<lparr>Currency = (if Cur bidResp \<noteq> '''' then Cur bidResp
                                      else defaultCurrency env),
                         Bids = map (\<lambda>b. \<lparr>TypedBid.Bid = b,
                                            BidType = mediaTypeForImp (ImpID b) (Imp ortbReq)\<rparr>)
                                  (SeatBid.Bid (SeatBid bidResp ! 0))\<rparr>,
                   [])))"
  by (simp add: MakeBids_def Let_def NewBidderResponseWithBidsCapacity_def appendBids_map
      split: sum.splits)

text \<open>Status 204, status 500, and status 200 with a body that does not decode.\<close>

theorem MakeBids_status_witness:
  "MakeBids demoExternals demoRequest demoRequestData \<lparr>StatusCode = 204, ResponseData.Body = ''''\<rparr> =
     (None, []) \<and>
   MakeBids demoExternals demoRequest demoRequestData \<lparr>StatusCode = 500, ResponseData.Body = ''<html>''\<rparr> =
     (None, [BadServerResponse ''unexpected status: 500'']) \<and>
   MakeBids demoExternals demoRequest demoRequestData \<lparr>StatusCode = 200, ResponseData.Body = ''<html>''\<rparr> =
     (None, [BadServerResponse ''invalid JSON''])"
  using MakeBids_status [of "\<lparr>StatusCode = 204, ResponseData.Body = ''''\<rparr>"
          demoExternals demoRequest demoRequestData]
        MakeBids_status [of "\<lparr>StatusCode = 500, ResponseData.Body = ''<html>''\<rparr>"
          demoExternals demoRequest demoRequestData]
        MakeBids_status [of "\<lparr>StatusCode = 200, ResponseData.Body = ''<html>''\<rparr>"
          demoExternals demoRequest demoRequestData]
  by (simp add: Sprintf_d_def demoExternals_def)

text \<open>
  Claim C5. With status 200, a body that does not decode as a bid response gives no
  bids and exactly one server-response error, for malformed content; a body that
  decodes to a response without seats gives no bids and exactly one
  server-response error, for the empty seat-bid.
\<close>

theorem MakeBids_decode_errors:
  assumes "StatusCode respData = 200"
  shows "(\<forall>err. unmarshalBidResponse env (ResponseData.Body respData) = Inl err \<longrightarrow>
            MakeBids env ortbReq reqToBidder respData = (None, [BadServerResponse ''invalid JSON''])) \<and>
         (\<forall>bidResp. unmarshalBidResponse env (ResponseData.Body respData) = Inr bidResp \<and>
                    SeatBid bidResp = [] \<longrightarrow>
            MakeBids env ortbReq reqToBidder respData = (None, [BadServerResponse ''empty seatbid'']))"
  using assms by (simp add: MakeBids_def)

theorem MakeBids_decode_errors_witness:
  "(StatusCode \<lparr>StatusCode = 200, ResponseData.Body = ''<html>''\<rparr> = 200 \<and>
    unmarshalBidResponse demoExternals ''<html>'' = Inl (ExternalError ''invalid character'') \<and>
    MakeBids demoExternals demoRequest demoRequestData
      \<lparr>StatusCode = 200, ResponseData.Body = ''<html>''\<rparr> =
      (None, [BadServerResponse ''invalid JSON''])) \<and>
   (StatusCode \<lparr>StatusCode = 200, ResponseData.Body = ''{}''\<rparr> = 200 \<and>
    unmarshalBidResponse demoExternals ''{}'' = Inr \<lparr>SeatBid = [], Cur = ''''\<rparr> \<and>
    MakeBids demoExternals demoRequest demoRequestData
      \<lparr>StatusCode = 200, ResponseData.Body = ''{}''\<rparr> =
      (None, [BadServerResponse ''empty seatbid'']))"
proof -
  have s1: "StatusCode \<lparr>StatusCode = 200, ResponseData.Body = ''<html>''\<rparr> = 200"
   and s2: "StatusCode \<lparr>StatusCode = 200, ResponseData.Body = ''{}''\<rparr> = 200"
    by simp_all
  have d1: "unmarshalBidResponse demoExternals ''<html>'' = Inl (ExternalError ''invalid character'')"
   and d2: "unmarshalBidResponse demoExternals ''{}'' = Inr \<lparr>SeatBid = [], Cur = ''''\<rparr>"
    by (simp_all add: demoExternals_def)
  from MakeBids_decode_errors [OF s1, of demoExternals demoRequest demoRequestData] d1
  have a: "MakeBids demoExternals demoRequest demoRequestData
      \<lparr>StatusCode = 200, ResponseData.Body = ''<html>''\<rparr> =
      (None, [BadServerResponse ''invalid JSON''])"
    by simp
  from MakeBids_decode_errors [OF s2, of demoExternals demoRequest demoRequestData] d2
  have b: "MakeBids demoExternals demoRequest demoRequestData
      \<lparr>StatusCode = 200, ResponseData.Body = ''{}''\<rparr> =
      (None, [BadServerResponse ''empty seatbid''])"
    by simp
  show ?thesis using s1 s2 d1 d2 a b by simp
qed

text \<open>
  Claim C8. For a response with status 200 that decodes and has at least one seat,
  the result has exactly one typed bid for each bid of the first seat, in the
  order of the seat's bid list. Since the bids of the result are those of the
  first seat and no others, the bids of every later seat are dropped.
\<close>

theorem MakeBids_first_seat_in_order:
  assumes "StatusCode respData = 200"
      and "unmarshalBidResponse env (ResponseData.Body respData) = Inr bidResp"
      and "SeatBid bidResp \<noteq> []"
  shows "\<exists>br. MakeBids env ortbReq reqToBidder respData = (Some br, []) \<and>
              map TypedBid.Bid (Bids br) = SeatBid.Bid (SeatBid bidResp ! 0) \<and>
              length (Bids br) = length (SeatBid.Bid (SeatBid bidResp ! 0))"
  by (simp add: MakeBids_decoded [OF assms] comp_def)

text \<open>
  \<open>demoBidResponse\<close> has four bids in its first seat and one in its second; the
  result has the four, in their order.
\<close>

theorem MakeBids_first_seat_in_order_witness:
  \<open>\<exists>br. MakeBids demoExternals demoRequest demoRequestData
           \<lparr>StatusCode = 200, ResponseData.Body = ''{"cur":"EUR","seatbid":[...]}''\<rparr> =
           (Some br, []) \<and>
         map (\<lambda>tb. Bid.ID (TypedBid.Bid tb)) (Bids br) = [''b1'', ''b2'', ''b3'', ''b4'']\<close>
proof -
  let ?resp = \<open>\<lparr>StatusCode = 200, ResponseData.Body = ''{"cur":"EUR","seatbid":[...]}''\<rparr>\<close>
  have s: "StatusCode ?resp = 200"
    by simp
  have d: "unmarshalBidResponse demoExternals (ResponseData.Body ?resp) = Inr demoBidResponse"
    by (simp add: demoExternals_def)
  have n: "SeatBid demoBidResponse \<noteq> []"
    by (simp add: demoBidResponse_def)
  from MakeBids_first_seat_in_order [OF s d n, of demoRequest demoRequestData]
  obtain br where br: "MakeBids demoExternals demoRequest demoRequestData ?resp = (Some br, [])"
    and bids: "map TypedBid.Bid (Bids br) = SeatBid.Bid (SeatBid demoBidResponse ! 0)"
    by blast
  have "map (\<lambda>tb. Bid.ID (TypedBid.Bid tb)) (Bids br) = map Bid.ID (map TypedBid.Bid (Bids br))"
    by (simp add: comp_def)
  also have "\<dots> = [''b1'', ''b2'', ''b3'', ''b4'']"
    by (simp add: bids demoBidResponse_def)
  finally have ids: "map (\<lambda>tb. Bid.ID (TypedBid.Bid tb)) (Bids br) = [''b1'', ''b2'', ''b3'', ''b4'']" .
  show ?thesis
    by (rule exI [of _ br]) (simp only: br ids)
qed

text \<open>
  Claim C4. The media type of a typed bid is computed from the line items of the
  auction request and the bid's impression ID alone: it is looked up in the first
  line item whose ID is the impression ID, and is video if that line item has a
  video sub-object, else native if it has a native sub-object, else banner; it is
  banner as well when no line item has that ID. Every typed bid that \<^verbatim>\<open>MakeBids\<close>
  returns has the type so computed, whatever else the response holds.
\<close>

theorem mediaTypeForImp_from_request:
  "mediaTypeForImp impID imps =
     (case find (\<lambda>imp. Imp.ID imp = impID) imps of
        None \<Rightarrow> BidTypeBanner
      | Some imp \<Rightarrow>
          if Video imp \<noteq> None then BidTypeVideo
          else if Native imp \<noteq> None then BidTypeNative
          else BidTypeBanner) \<and>
   (\<forall>br errs. MakeBids env ortbReq reqToBidder respData = (Some br, errs) \<longrightarrow>
      (\<forall>tb \<in> set (Bids br).
         BidType tb = mediaTypeForImp (ImpID (TypedBid.Bid tb)) (Imp ortbReq)))"
proof (intro conjI allI impI)
  show "mediaTypeForImp impID imps =
     (case find (\<lambda>imp. Imp.ID imp = impID) imps of
        None \<Rightarrow> BidTypeBanner
      | Some imp \<Rightarrow>
          if Video imp \<noteq> None then BidTypeVideo
          else if Native imp \<noteq> None then BidTypeNative
          else BidTypeBanner)"
    by (induction imps) simp_all
next
  fix br errs
  assume r: "MakeBids env ortbReq reqToBidder respData = (Some br, errs)"
  then obtain bidResp where "StatusCode respData = 200"
    and "unmarshalBidResponse env (ResponseData.Body respData) = Inr bidResp"
    and "SeatBid bidResp \<noteq> []"
    using MakeBids_Some by blast
  from MakeBids_decoded [OF this, of ortbReq reqToBidder] r
  have "Bids br = map (\<lambda>b. \<lparr>TypedBid.Bid = b, BidType = mediaTypeForImp (ImpID b) (Imp ortbReq)\<rparr>)
                    (SeatBid.Bid (SeatBid bidResp ! 0))"
    by auto
  then show "\<forall>tb \<in> set (Bids br).
      BidType tb = mediaTypeForImp (ImpID (TypedBid.Bid tb)) (Imp ortbReq)"
    by auto
qed

text \<open>
  The four bids of the first seat of \<open>demoBidResponse\<close> name the line item with a
  video sub-object, the one with a native sub-object, the one with neither, and a
  line item that the request does not have.
\<close>

theorem mediaTypeForImp_from_request_witness:
  \<open>MakeBids demoExternals demoRequest demoRequestData
     \<lparr>StatusCode = 200, ResponseData.Body = ''{"cur":"EUR","seatbid":[...]}''\<rparr> =
     (Some (the (fst (MakeBids demoExternals demoRequest demoRequestData
        \<lparr>StatusCode = 200, ResponseData.Body = ''{"cur":"EUR","seatbid":[...]}''\<rparr>))), []) \<and>
   map BidType
     (Bids (the (fst (MakeBids demoExternals demoRequest demoRequestData
        \<lparr>StatusCode = 200, ResponseData.Body = ''{"cur":"EUR","seatbid":[...]}''\<rparr>)))) =
     [BidTypeVideo, BidTypeNative, BidTypeBanner, BidTypeBanner] \<and>
   map (\<lambda>tb. ImpID (TypedBid.Bid tb))
     (Bids (the (fst (MakeBids demoExternals demoRequest demoRequestData
        \<lparr>StatusCode = 200, ResponseData.Body = ''{"cur":"EUR","seatbid":[...]}''\<rparr>)))) =
     [''2'', ''3'', ''1'', ''9'']\<close>
proof -
  let ?resp = \<open>\<lparr>StatusCode = 200, ResponseData.Body = ''{"cur":"EUR","seatbid":[...]}''\<rparr>\<close>
  let ?br = "the (fst (MakeBids demoExternals demoRequest demoRequestData ?resp))"
  have r: "MakeBids demoExternals demoRequest demoRequestData ?resp = (Some ?br, [])"
    by (simp add: demo_bids_eval)
  have ids: "map (\<lambda>tb. ImpID (TypedBid.Bid tb)) (Bids ?br) = [''2'', ''3'', ''1'', ''9'']"
    by (simp add: demo_bids_eval)
  note t = mediaTypeForImp_from_request
  from t [of _ _ demoExternals demoRequest demoRequestData ?resp] r
  have "\<forall>tb \<in> set (Bids ?br).
      BidType tb = mediaTypeForImp (ImpID (TypedBid.Bid tb)) (Imp demoRequest)"
    by blast
  then have "map BidType (Bids ?br) =
      map (\<lambda>tb. mediaTypeForImp (ImpID (TypedBid.Bid tb)) (Imp demoRequest)) (Bids ?br)"
    by simp
  also have "\<dots> = map (\<lambda>i. mediaTypeForImp i (Imp demoRequest))
      (map (\<lambda>tb. ImpID (TypedBid.Bid tb)) (Bids ?br))"
    by (simp add: comp_def)
  also have "\<dots> = map (\<lambda>i. mediaTypeForImp i (Imp demoRequest)) [''2'', ''3'', ''1'', ''9'']"
    by (simp only: ids)
  also have "\<dots> = [BidTypeVideo, BidTypeNative, BidTypeBanner, BidTypeBanner]"
    by (simp add: t demoRequest_def)
  finally show ?thesis using r ids by simp
qed

end
